theory Spec2Isabelle
  imports Main "HOL-Library.Word"
begin

section \<open>The POSIX socket backend of a network target\<close>

text \<open>
  This theory embeds \<^verbatim>\<open>src/config/have_sys_socket.c\<close>. The file is a thin layer over the
  operating system: every function is a short sequence of system calls, calls to the
  error sink and mutex operations around one mutable field, \<^verbatim>\<open>target->handle\<close>.

  The embedding makes the three kinds of effect explicit.
  \<^item> The network targets live in a store that maps an address to the fields of the
    \<^verbatim>\<open>struct network_target\<close> at that address; a function that takes a
    \<^verbatim>\<open>struct network_target *\<close> takes the address.
  \<^item> Every call that leaves the file (system call, error sink, mutex) is appended to a
    trace, with its arguments and, where it has one that the code reads, its result.
  \<^item> What the operating system answers is not decided by the file. It is a parameter:
    a record of functions that give the answer of each call from the trace so far and
    the arguments of the call.
\<close>

subsection \<open>C types\<close>

text \<open>
  \<^verbatim>\<open>int\<close> is 32 bits wide; \<^verbatim>\<open>size_t\<close> and \<^verbatim>\<open>ssize_t\<close> (the type of the result of
  \<^verbatim>\<open>send\<close>) are 64 bits wide, as on the LP64 platforms the backend is built for.
\<close>

type_synonym c_int = "32 word"
type_synonym c_size_t = "64 word"
type_synonym c_ssize_t = "64 word"

text \<open>A pointer to a \<^verbatim>\<open>struct network_target\<close>, to a message buffer, to a socket address.\<close>

type_synonym target_ptr = nat
type_synonym buf_ptr = nat
type_synonym sockaddr_ptr = nat

text \<open>
  The macros of \<^verbatim>\<open><sys/socket.h>\<close> that the file passes on. Their numeric values are
  the platform's; the file only hands them to \<^verbatim>\<open>socket\<close> and \<^verbatim>\<open>getaddrinfo\<close>.
\<close>

datatype sock_domain = AF_INET | AF_INET6

datatype sock_type = SOCK_STREAM | SOCK_DGRAM

text \<open>The arguments of the error sink: which failure, which message, which kind of code.\<close>

datatype error_id =
  SOCKET_FAILURE | ADDRESS_FAILURE | SOCKET_CONNECT_FAILURE | SOCKET_SEND_FAILURE

datatype l10n_message =
  L10N_SOCKET_FAILED_ERROR_MESSAGE
| L10N_GETADDRINFO_FAILURE_ERROR_MESSAGE
| L10N_CONNECT_SYS_SOCKET_FAILED_ERROR_MESSAGE
| L10N_SEND_SYS_SOCKET_FAILED_ERROR_MESSAGE

datatype l10n_code_type =
  L10N_ERRNO_ERROR_CODE_TYPE | L10N_GETADDRINFO_RETURN_ERROR_CODE_TYPE

text \<open>
  \<^verbatim>\<open>struct addrinfo\<close>, once as the hints the file fills in (a null pointer is \<open>None\<close>),
  once as the head of the list \<^verbatim>\<open>getaddrinfo\<close> hands back: \<open>res_list\<close> is the pointer
  stored in \<^verbatim>\<open>addr_result\<close>, the other two are the fields the file reads through it.
\<close>

record addrinfo_hints =
  ai_flags :: c_int
  ai_family :: sock_domain
  ai_socktype :: sock_type
  ai_protocol :: c_int
  ai_addrlen :: c_int
  ai_canonname :: "string option"
  ai_addr :: "sockaddr_ptr option"
  ai_next :: "nat option"

record addrinfo_result =
  res_list :: nat
  res_addr :: sockaddr_ptr
  res_addrlen :: c_int

text \<open>
  The target. The \<^verbatim>\<open>mutex\<close> field is opaque to the file: it is only ever passed by
  address to the mutex operations, which appear in the trace with the target's address.
\<close>

record network_target =
  destination :: string
  port :: string
  handle :: c_int

subsection \<open>Trace and operating system\<close>

datatype event =
  EvSocket sock_domain sock_type c_int c_int
| EvGetaddrinfo string string addrinfo_hints c_int addrinfo_result
| EvConnect c_int sockaddr_ptr c_int c_int
| EvFreeaddrinfo nat
| EvClose c_int
| EvSend c_int buf_ptr c_size_t c_int c_ssize_t
| EvRaise error_id l10n_message c_int l10n_code_type
| EvLock target_ptr
| EvUnlock target_ptr
| EvInitMutex target_ptr
| EvDestroyMutex target_ptr

text \<open>
  The last argument of \<open>EvSocket\<close>, \<open>EvConnect\<close> and \<open>EvSend\<close> is the result of the
  call, the last two of \<open>EvGetaddrinfo\<close> are its result and the list it stored.
\<close>

record os =
  os_socket :: "event list \<Rightarrow> sock_domain \<Rightarrow> sock_type \<Rightarrow> c_int \<Rightarrow> c_int"
  os_getaddrinfo ::
    "event list \<Rightarrow> string \<Rightarrow> string \<Rightarrow> addrinfo_hints \<Rightarrow> c_int \<times> addrinfo_result"
  os_connect :: "event list \<Rightarrow> c_int \<Rightarrow> sockaddr_ptr \<Rightarrow> c_int \<Rightarrow> c_int"
  os_send :: "event list \<Rightarrow> c_int \<Rightarrow> buf_ptr \<Rightarrow> c_size_t \<Rightarrow> c_int \<Rightarrow> c_ssize_t"
  os_errno :: "event list \<Rightarrow> c_int"

record world =
  heap :: "target_ptr \<Rightarrow> network_target"
  trace :: "event list"

subsection \<open>The address-resolve-and-connect primitive\<close>

text \<open>
  \<^verbatim>\<open>sys_socket_open_socket\<close> touches no target: it takes the two strings and works on
  the trace alone. The three labels \<^verbatim>\<open>fail_connect\<close>, \<^verbatim>\<open>fail_addr\<close> and \<^verbatim>\<open>fail\<close> fall
  through to one another, so each branch below lists the calls from its label down to
  \<^verbatim>\<open>return -1\<close>. \<^verbatim>\<open>errno\<close> is read when the arguments of the error sink are evaluated,
  that is after the failed call and before the sink runs.
\<close>

definition sys_socket_open_socket ::
  "os \<Rightarrow> event list \<Rightarrow> string \<Rightarrow> string \<Rightarrow> sock_domain \<Rightarrow> sock_type \<Rightarrow> c_int
     \<Rightarrow> c_int \<times> event list" where
  "sys_socket_open_socket sys tr dest prt domain type protocol =
     (let hndl = os_socket sys tr domain type protocol;
          tr1 = tr @ [EvSocket domain type protocol hndl]
      in if hndl = - 1 then
           (- 1, tr1 @ [EvRaise SOCKET_FAILURE L10N_SOCKET_FAILED_ERROR_MESSAGE
                          (os_errno sys tr1) L10N_ERRNO_ERROR_CODE_TYPE])
         else
           let hints = \<lparr> ai_flags = 0, ai_family = domain, ai_socktype = type,
                         ai_protocol = protocol, ai_addrlen = 0, ai_canonname = None,
                         ai_addr = None, ai_next = None \<rparr>;
               answer = os_getaddrinfo sys tr1 dest prt hints;
               result = fst answer;
               addr_result = snd answer;
               tr2 = tr1 @ [EvGetaddrinfo dest prt hints result addr_result]
           in if result \<noteq> 0 then
                (- 1, tr2 @ [EvRaise ADDRESS_FAILURE L10N_GETADDRINFO_FAILURE_ERROR_MESSAGE
                               result L10N_GETADDRINFO_RETURN_ERROR_CODE_TYPE,
                             EvClose hndl])
              else
                let result = os_connect sys tr2 hndl (res_addr addr_result)
                               (res_addrlen addr_result);
                    tr3 = tr2 @ [EvConnect hndl (res_addr addr_result)
                                   (res_addrlen addr_result) result]
                in if result = - 1 then
                     (- 1, tr3 @ [EvRaise SOCKET_CONNECT_FAILURE
                                    L10N_CONNECT_SYS_SOCKET_FAILED_ERROR_MESSAGE
                                    (os_errno sys tr3) L10N_ERRNO_ERROR_CODE_TYPE,
                                  EvFreeaddrinfo (res_list addr_result),
                                  EvClose hndl])
                   else
                     (hndl, tr3 @ [EvFreeaddrinfo (res_list addr_result)]))"

subsection \<open>Calls that leave the file, on a world\<close>

text \<open>
  Modelled from the spec: \<^verbatim>\<open>lock_network_target\<close>, \<^verbatim>\<open>unlock_network_target\<close>,
  \<^verbatim>\<open>config_init_mutex\<close> and \<^verbatim>\<open>config_destroy_mutex\<close> are declared in headers that are
  not among the sources (\<^verbatim>\<open>private/target/network.h\<close>,
  \<^verbatim>\<open>private/config/wrapper/thread_safety.h\<close>). The specification has the lock as an
  opaque primitive with the operations init, destroy, lock and unlock, so each is a
  call recorded in the trace with the address of the target whose mutex it is given.
  The same holds for the error sink (\<^verbatim>\<open>private/error.h\<close>), which the specification
  has receive a message kind, a numeric code and a tag for the kind of code: a call of
  \<^verbatim>\<open>raise_socket_failure\<close>, \<^verbatim>\<open>raise_address_failure\<close>,
  \<^verbatim>\<open>raise_socket_connect_failure\<close> or \<^verbatim>\<open>raise_socket_send_failure\<close> is an \<open>EvRaise\<close>
  with the matching \<open>error_id\<close> and the three arguments.
\<close>

definition emit :: "event \<Rightarrow> world \<Rightarrow> world" where
  "emit e w = w\<lparr> trace := trace w @ [e] \<rparr>"

definition lock_network_target :: "target_ptr \<Rightarrow> world \<Rightarrow> world" where
  "lock_network_target target w = emit (EvLock target) w"

definition unlock_network_target :: "target_ptr \<Rightarrow> world \<Rightarrow> world" where
  "unlock_network_target target w = emit (EvUnlock target) w"

definition config_init_mutex :: "target_ptr \<Rightarrow> world \<Rightarrow> world" where
  "config_init_mutex target w = emit (EvInitMutex target) w"

definition config_destroy_mutex :: "target_ptr \<Rightarrow> world \<Rightarrow> world" where
  "config_destroy_mutex target w = emit (EvDestroyMutex target) w"

definition close_fd :: "c_int \<Rightarrow> world \<Rightarrow> world" where
  "close_fd fd w = emit (EvClose fd) w"

text \<open>The assignment \<^verbatim>\<open>target->handle = v\<close>.\<close>

definition set_handle :: "target_ptr \<Rightarrow> c_int \<Rightarrow> world \<Rightarrow> world" where
  "set_handle target v w = w\<lparr> heap := (heap w)(target := (heap w target)\<lparr> handle := v \<rparr>) \<rparr>"

text \<open>
  The call of the primitive with the strings of a target: its result, and the world
  with the trace the primitive leaves.
\<close>

definition call_open_socket ::
  "os \<Rightarrow> target_ptr \<Rightarrow> sock_domain \<Rightarrow> sock_type \<Rightarrow> c_int \<Rightarrow> world \<Rightarrow> c_int \<times> world" where
  "call_open_socket sys target domain type protocol w =
     (let r = sys_socket_open_socket sys (trace w) (destination (heap w target))
                (port (heap w target)) domain type protocol
      in (fst r, w\<lparr> trace := snd r \<rparr>))"

subsection \<open>The functions of the backend\<close>

definition sys_socket_network_target_is_open :: "target_ptr \<Rightarrow> world \<Rightarrow> c_int" where
  "sys_socket_network_target_is_open target w =
     (if handle (heap w target) \<noteq> - 1 then 1 else 0)"

definition sys_socket_close_network_target :: "target_ptr \<Rightarrow> world \<Rightarrow> world" where
  "sys_socket_close_network_target target w =
     (let w1 = (if handle (heap w target) \<noteq> - 1
                then close_fd (handle (heap w target)) w else w)
      in config_destroy_mutex target w1)"

definition sys_socket_init_network_target :: "target_ptr \<Rightarrow> world \<Rightarrow> world" where
  "sys_socket_init_network_target target w =
     config_init_mutex target (set_handle target (- 1) w)"

text \<open>The four open functions: a null result is \<open>None\<close>.\<close>

definition sys_socket_open_tcp4_target ::
  "os \<Rightarrow> target_ptr \<Rightarrow> world \<Rightarrow> target_ptr option \<times> world" where
  "sys_socket_open_tcp4_target sys target w =
     (let w1 = lock_network_target target w;
          r = call_open_socket sys target AF_INET SOCK_STREAM 0 w1;
          result = fst r;
          w2 = set_handle target result (snd r);
          w3 = unlock_network_target target w2
      in (if result = - 1 then None else Some target, w3))"

definition sys_socket_open_tcp6_target ::
  "os \<Rightarrow> target_ptr \<Rightarrow> world \<Rightarrow> target_ptr option \<times> world" where
  "sys_socket_open_tcp6_target sys target w =
     (let w1 = lock_network_target target w;
          r = call_open_socket sys target AF_INET6 SOCK_STREAM 0 w1;
          result = fst r;
          w2 = set_handle target result (snd r);
          w3 = unlock_network_target target w2
      in (if result = - 1 then None else Some target, w3))"

definition sys_socket_open_udp4_target ::
  "os \<Rightarrow> target_ptr \<Rightarrow> world \<Rightarrow> target_ptr option \<times> world" where
  "sys_socket_open_udp4_target sys target w =
     (let w1 = lock_network_target target w;
          r = call_open_socket sys target AF_INET SOCK_DGRAM 0 w1;
          result = fst r;
          w2 = set_handle target result (snd r);
          w3 = unlock_network_target target w2
      in (if result = - 1 then None else Some target, w3))"

definition sys_socket_open_udp6_target ::
  "os \<Rightarrow> target_ptr \<Rightarrow> world \<Rightarrow> target_ptr option \<times> world" where
  "sys_socket_open_udp6_target sys target w =
     (let w1 = lock_network_target target w;
          r = call_open_socket sys target AF_INET6 SOCK_DGRAM 0 w1;
          result = fst r;
          w2 = set_handle target result (snd r);
          w3 = unlock_network_target target w2
      in (if result = - 1 then None else Some target, w3))"

text \<open>
  The four reopen functions. The test is the C truth value of the result of
  \<^verbatim>\<open>sys_socket_network_target_is_open\<close>; the result is the argument, whatever happened.
\<close>

definition sys_socket_reopen_tcp4_target ::
  "os \<Rightarrow> target_ptr \<Rightarrow> world \<Rightarrow> target_ptr option \<times> world" where
  "sys_socket_reopen_tcp4_target sys target w =
     (let w1 = lock_network_target target w;
          w2 = (if sys_socket_network_target_is_open target w1 \<noteq> 0 then
                  let wc = close_fd (handle (heap w1 target)) w1;
                      r = call_open_socket sys target AF_INET SOCK_STREAM 0 wc
                  in set_handle target (fst r) (snd r)
                else w1);
          w3 = unlock_network_target target w2
      in (Some target, w3))"

definition sys_socket_reopen_tcp6_target ::
  "os \<Rightarrow> target_ptr \<Rightarrow> world \<Rightarrow> target_ptr option \<times> world" where
  "sys_socket_reopen_tcp6_target sys target w =
     (let w1 = lock_network_target target w;
          w2 = (if sys_socket_network_target_is_open target w1 \<noteq> 0 then
                  let wc = close_fd (handle (heap w1 target)) w1;
                      r = call_open_socket sys target AF_INET6 SOCK_STREAM 0 wc
                  in set_handle target (fst r) (snd r)
                else w1);
          w3 = unlock_network_target target w2
      in (Some target, w3))"

definition sys_socket_reopen_udp4_target ::
  "os \<Rightarrow> target_ptr \<Rightarrow> world \<Rightarrow> target_ptr option \<times> world" where
  "sys_socket_reopen_udp4_target sys target w =
     (let w1 = lock_network_target target w;
          w2 = (if sys_socket_network_target_is_open target w1 \<noteq> 0 then
                  let wc = close_fd (handle (heap w1 target)) w1;
                      r = call_open_socket sys target AF_INET SOCK_DGRAM 0 wc
                  in set_handle target (fst r) (snd r)
                else w1);
          w3 = unlock_network_target target w2
      in (Some target, w3))"

definition sys_socket_reopen_udp6_target ::
  "os \<Rightarrow> target_ptr \<Rightarrow> world \<Rightarrow> target_ptr option \<times> world" where
  "sys_socket_reopen_udp6_target sys target w =
     (let w1 = lock_network_target target w;
          w2 = (if sys_socket_network_target_is_open target w1 \<noteq> 0 then
                  let wc = close_fd (handle (heap w1 target)) w1;
                      r = call_open_socket sys target AF_INET6 SOCK_DGRAM 0 wc
                  in set_handle target (fst r) (snd r)
                else w1);
          w3 = unlock_network_target target w2
      in (Some target, w3))"

text \<open>
  \<^verbatim>\<open>sys_socket_sendto_target\<close> stores the \<^verbatim>\<open>ssize_t\<close> result of \<^verbatim>\<open>send\<close> in an
  \<^verbatim>\<open>int\<close>: the conversion keeps the low 32 bits. The comparison with \<^verbatim>\<open>-1\<close> and the
  call of the error sink come after the unlock, and \<^verbatim>\<open>errno\<close> is read there.
\<close>

definition sys_socket_sendto_target ::
  "os \<Rightarrow> target_ptr \<Rightarrow> buf_ptr \<Rightarrow> c_size_t \<Rightarrow> world \<Rightarrow> c_int \<times> world" where
  "sys_socket_sendto_target sys target msg msg_length w =
     (let w1 = lock_network_target target w;
          sent = os_send sys (trace w1) (handle (heap w1 target)) msg msg_length 0;
          result = (ucast sent :: c_int);
          w2 = emit (EvSend (handle (heap w1 target)) msg msg_length 0 sent) w1;
          w3 = unlock_network_target target w2;
          w4 = (if result = - 1 then
                  emit (EvRaise SOCKET_SEND_FAILURE L10N_SEND_SYS_SOCKET_FAILED_ERROR_MESSAGE
                          (os_errno sys (trace w3)) L10N_ERRNO_ERROR_CODE_TYPE) w3
                else w3)
      in (result, w4))"

subsection \<open>The four variants as one table\<close>

datatype variant = TCP4 | TCP6 | UDP4 | UDP6

fun open_target :: "variant \<Rightarrow> os \<Rightarrow> target_ptr \<Rightarrow> world \<Rightarrow> target_ptr option \<times> world" where
  "open_target TCP4 = sys_socket_open_tcp4_target"
| "open_target TCP6 = sys_socket_open_tcp6_target"
| "open_target UDP4 = sys_socket_open_udp4_target"
| "open_target UDP6 = sys_socket_open_udp6_target"

fun reopen_target :: "variant \<Rightarrow> os \<Rightarrow> target_ptr \<Rightarrow> world \<Rightarrow> target_ptr option \<times> world" where
  "reopen_target TCP4 = sys_socket_reopen_tcp4_target"
| "reopen_target TCP6 = sys_socket_reopen_tcp6_target"
| "reopen_target UDP4 = sys_socket_reopen_udp4_target"
| "reopen_target UDP6 = sys_socket_reopen_udp6_target"

text \<open>The family and the socket type a variant stands for, by its name.\<close>

fun variant_domain :: "variant \<Rightarrow> sock_domain" where
  "variant_domain TCP4 = AF_INET"
| "variant_domain TCP6 = AF_INET6"
| "variant_domain UDP4 = AF_INET"
| "variant_domain UDP6 = AF_INET6"

fun variant_type :: "variant \<Rightarrow> sock_type" where
  "variant_type TCP4 = SOCK_STREAM"
| "variant_type TCP6 = SOCK_STREAM"
| "variant_type UDP4 = SOCK_DGRAM"
| "variant_type UDP6 = SOCK_DGRAM"

subsection \<open>Reading a trace\<close>

text \<open>The events a call appended to the trace it started from.\<close>

definition new_events :: "event list \<Rightarrow> event list \<Rightarrow> event list" where
  "new_events before after = drop (length before) after"

text \<open>The descriptors closed, the address lists freed, the reports to the error sink,
  the (family, socket type) pairs of the sockets asked for, each in the order of the trace.\<close>

fun closed_fds :: "event list \<Rightarrow> c_int list" where
  "closed_fds [] = []"
| "closed_fds (EvClose fd # es) = fd # closed_fds es"
| "closed_fds (e # es) = closed_fds es"

fun freed_lists :: "event list \<Rightarrow> nat list" where
  "freed_lists [] = []"
| "freed_lists (EvFreeaddrinfo l # es) = l # freed_lists es"
| "freed_lists (e # es) = freed_lists es"

fun raised :: "event list \<Rightarrow> event list" where
  "raised [] = []"
| "raised (EvRaise i m c k # es) = EvRaise i m c k # raised es"
| "raised (e # es) = raised es"

fun socket_calls :: "event list \<Rightarrow> (sock_domain \<times> sock_type) list" where
  "socket_calls [] = []"
| "socket_calls (EvSocket d t p fd # es) = (d, t) # socket_calls es"
| "socket_calls (e # es) = socket_calls es"

fun connect_calls :: "event list \<Rightarrow> c_int list" where
  "connect_calls [] = []"
| "connect_calls (EvConnect fd a l r # es) = fd # connect_calls es"
| "connect_calls (e # es) = connect_calls es"

fun destroyed_mutexes :: "event list \<Rightarrow> target_ptr list" where
  "destroyed_mutexes [] = []"
| "destroyed_mutexes (EvDestroyMutex t # es) = t # destroyed_mutexes es"
| "destroyed_mutexes (e # es) = destroyed_mutexes es"

text \<open>
  The ledger of what is owned. A successful \<^verbatim>\<open>socket\<close> adds its descriptor and a
  successful \<^verbatim>\<open>getaddrinfo\<close> its list; \<^verbatim>\<open>close\<close> and \<^verbatim>\<open>freeaddrinfo\<close> take one
  out, and fail (\<open>None\<close>) on something that is not owned: never acquired, or released
  before. What the ledger holds at the end has not been released.
\<close>

fun settle :: "event list \<Rightarrow> c_int list \<times> nat list \<Rightarrow> (c_int list \<times> nat list) option" where
  "settle [] owned = Some owned"
| "settle (EvSocket d t p fd # es) (fds, ls) =
     settle es (if fd = - 1 then fds else fd # fds, ls)"
| "settle (EvGetaddrinfo d p h r a # es) (fds, ls) =
     settle es (fds, if r = 0 then res_list a # ls else ls)"
| "settle (EvClose fd # es) (fds, ls) =
     (if fd \<in> set fds then settle es (remove1 fd fds, ls) else None)"
| "settle (EvFreeaddrinfo l # es) (fds, ls) =
     (if l \<in> set ls then settle es (fds, remove1 l ls) else None)"
| "settle (e # es) owned = settle es owned"

text \<open>
  The reports to the error sink made while the lock of a target is held: the flag says
  whether it is held at the head of the list.
\<close>

fun critical_raises :: "target_ptr \<Rightarrow> bool \<Rightarrow> event list \<Rightarrow> event list" where
  "critical_raises t held [] = []"
| "critical_raises t held (EvLock t' # es) = critical_raises t (held \<or> t' = t) es"
| "critical_raises t held (EvUnlock t' # es) = critical_raises t (held \<and> t' \<noteq> t) es"
| "critical_raises t held (EvRaise i m c k # es) =
     (if held then EvRaise i m c k # critical_raises t held es
      else critical_raises t held es)"
| "critical_raises t held (e # es) = critical_raises t held es"

text \<open>The hints the primitive hands to the resolver.\<close>

definition open_socket_hints :: "sock_domain \<Rightarrow> sock_type \<Rightarrow> c_int \<Rightarrow> addrinfo_hints" where
  "open_socket_hints domain type protocol =
     \<lparr> ai_flags = 0, ai_family = domain, ai_socktype = type, ai_protocol = protocol,
       ai_addrlen = 0, ai_canonname = None, ai_addr = None, ai_next = None \<rparr>"

subsection \<open>Operating systems and targets to run the functions on\<close>

text \<open>
  A collector that listens: every call succeeds, a new descriptor is numbered by the
  length of the trace, \<^verbatim>\<open>send\<close> takes the whole message.
\<close>

definition os_reachable :: os where
  "os_reachable =
     \<lparr> os_socket = (\<lambda>tr d t p. 3 + of_nat (length tr)),
       os_getaddrinfo = (\<lambda>tr d p h. (0, \<lparr> res_list = 100, res_addr = 200, res_addrlen = 16 \<rparr>)),
       os_connect = (\<lambda>tr fd a l. 0),
       os_send = (\<lambda>tr fd msg len flags. len),
       os_errno = (\<lambda>tr. 0) \<rparr>"

text \<open>No descriptor left (\<^verbatim>\<open>EMFILE\<close>).\<close>

definition os_no_descriptor :: os where
  "os_no_descriptor = os_reachable\<lparr> os_socket := (\<lambda>tr d t p. - 1), os_errno := (\<lambda>tr. 24) \<rparr>"

text \<open>A name the resolver does not know (\<^verbatim>\<open>EAI_NONAME\<close>).\<close>

definition os_unresolvable :: os where
  "os_unresolvable =
     os_reachable\<lparr> os_getaddrinfo :=
       (\<lambda>tr d p h. (- 2, \<lparr> res_list = 0, res_addr = 0, res_addrlen = 0 \<rparr>)) \<rparr>"

text \<open>Nobody listens (\<^verbatim>\<open>ECONNREFUSED\<close>).\<close>

definition os_refusing :: os where
  "os_refusing = os_reachable\<lparr> os_connect := (\<lambda>tr fd a l. - 1), os_errno := (\<lambda>tr. 111) \<rparr>"

text \<open>The peer has gone (\<^verbatim>\<open>EPIPE\<close>): \<^verbatim>\<open>send\<close> fails.\<close>

definition os_broken_pipe :: os where
  "os_broken_pipe =
     os_reachable\<lparr> os_send := (\<lambda>tr fd msg len flags. - 1), os_errno := (\<lambda>tr. 32) \<rparr>"

text \<open>
  A store with the strings of the scenario of the specification at every address, and
  the target at address 16 constructed in it.
\<close>

definition blank_world :: world where
  "blank_world =
     \<lparr> heap = (\<lambda>a. \<lparr> destination = ''127.0.0.1'', port = ''9999'', handle = 0 \<rparr>),
       trace = [] \<rparr>"

definition constructed :: world where
  "constructed = sys_socket_init_network_target 16 blank_world"

text \<open>The same target after a successful open of each kind used below.\<close>

definition opened_tcp4 :: world where
  "opened_tcp4 = snd (sys_socket_open_tcp4_target os_reachable 16 constructed)"

definition opened_udp6 :: world where
  "opened_udp6 = snd (sys_socket_open_udp6_target os_reachable 16 constructed)"

section \<open>Properties\<close>

subsection \<open>Unfolding and evaluation\<close>

lemmas call_defs = emit_def lock_network_target_def unlock_network_target_def
  config_init_mutex_def config_destroy_mutex_def close_fd_def set_handle_def call_open_socket_def

lemmas example_defs = os_reachable_def os_no_descriptor_def os_unresolvable_def os_refusing_def
  os_broken_pipe_def blank_world_def constructed_def opened_tcp4_def opened_udp6_def

lemma new_events_append [simp]: "new_events tr (tr @ evs) = evs"
  by (simp add: new_events_def)

lemma new_events_append_Cons [simp]: "new_events tr (tr @ e # evs) = e # evs"
  by (simp add: new_events_def)

lemma open_socket_extends:
  "snd (sys_socket_open_socket sys tr dest prt domain type protocol) =
     tr @ new_events tr (snd (sys_socket_open_socket sys tr dest prt domain type protocol))"
  by (simp add: sys_socket_open_socket_def Let_def)

lemma open_socket_asks_once:
  "socket_calls (new_events tr (snd (sys_socket_open_socket sys tr dest prt domain type protocol)))
     = [(domain, type)]"
  by (simp add: sys_socket_open_socket_def Let_def)

lemma open_socket_closes_own:
  "set (closed_fds (new_events tr
      (snd (sys_socket_open_socket sys tr dest prt domain type protocol))))
     \<subseteq> {os_socket sys tr domain type protocol}"
  by (simp add: sys_socket_open_socket_def Let_def)

lemma open_target_eq:
  "open_target v sys target w =
     (let r = sys_socket_open_socket sys (trace w @ [EvLock target])
                (destination (heap w target)) (port (heap w target))
                (variant_domain v) (variant_type v) 0
      in (if fst r = - 1 then None else Some target,
          w\<lparr> heap := (heap w)(target := (heap w target)\<lparr> handle := fst r \<rparr>),
             trace := snd r @ [EvUnlock target] \<rparr>))"
  by (cases v)
    (simp_all add: sys_socket_open_tcp4_target_def sys_socket_open_tcp6_target_def
      sys_socket_open_udp4_target_def sys_socket_open_udp6_target_def call_defs Let_def)

lemma reopen_target_eq:
  "reopen_target v sys target w =
     (Some target,
      if handle (heap w target) \<noteq> - 1 then
        let r = sys_socket_open_socket sys
                  (trace w @ [EvLock target, EvClose (handle (heap w target))])
                  (destination (heap w target)) (port (heap w target))
                  (variant_domain v) (variant_type v) 0
        in w\<lparr> heap := (heap w)(target := (heap w target)\<lparr> handle := fst r \<rparr>),
              trace := snd r @ [EvUnlock target] \<rparr>
      else w\<lparr> trace := trace w @ [EvLock target, EvUnlock target] \<rparr>)"
  by (cases v)
    (simp_all add: sys_socket_reopen_tcp4_target_def sys_socket_reopen_tcp6_target_def
      sys_socket_reopen_udp4_target_def sys_socket_reopen_udp6_target_def
      sys_socket_network_target_is_open_def call_defs Let_def)

lemma sendto_eq:
  "sys_socket_sendto_target sys target msg msg_length w =
     (let sent = os_send sys (trace w @ [EvLock target]) (handle (heap w target)) msg msg_length 0;
          evs = [EvLock target, EvSend (handle (heap w target)) msg msg_length 0 sent,
                 EvUnlock target]
      in (ucast sent,
          w\<lparr> trace := trace w @ evs @
                (if (ucast sent :: c_int) = - 1 then
                   [EvRaise SOCKET_SEND_FAILURE L10N_SEND_SYS_SOCKET_FAILED_ERROR_MESSAGE
                      (os_errno sys (trace w @ evs)) L10N_ERRNO_ERROR_CODE_TYPE]
                 else []) \<rparr>))"
  by (simp add: sys_socket_sendto_target_def call_defs Let_def)

lemma open_socket_fails_iff:
  assumes h: "h = os_socket sys tr domain type protocol"
    and tr1: "tr1 = tr @ [EvSocket domain type protocol h]"
    and gai: "os_getaddrinfo sys tr1 dest prt (open_socket_hints domain type protocol) = (g, a)"
    and tr2: "tr2 = tr1 @ [EvGetaddrinfo dest prt (open_socket_hints domain type protocol) g a]"
    and c: "c = os_connect sys tr2 h (res_addr a) (res_addrlen a)"
  shows "fst (sys_socket_open_socket sys tr dest prt domain type protocol)
           = (if h = - 1 \<or> g \<noteq> 0 \<or> c = - 1 then - 1 else h)"
proof -
  have gai': "os_getaddrinfo sys (tr @ [EvSocket domain type protocol h]) dest prt
                \<lparr> ai_flags = 0, ai_family = domain, ai_socktype = type,
                  ai_protocol = protocol, ai_addrlen = 0, ai_canonname = None,
                  ai_addr = None, ai_next = None \<rparr> = (g, a)"
    using gai tr1 by (simp add: open_socket_hints_def)
  show ?thesis
    using gai' tr2 c tr1
    by (simp add: sys_socket_open_socket_def Let_def h [symmetric] open_socket_hints_def)
qed

lemma narrow_sint:
  fixes r :: "64 word"
  assumes "- (2 ^ 31) \<le> sint r" and "sint r < 2 ^ 31"
  shows "sint (ucast r :: 32 word) = sint r"
proof -
  have "sint (ucast r :: 32 word) = signed_take_bit 31 (uint r)"
    by (simp add: signed_ucast_eq)
  also have "\<dots> = signed_take_bit 31 (signed_take_bit 63 (uint r))"
    by (simp add: signed_take_bit_signed_take_bit)
  also have "\<dots> = signed_take_bit 31 (sint r)"
    by (simp add: sint_uint)
  also have "\<dots> = sint r"
    using assms by (simp add: signed_take_bit_int_eq_self)
  finally show ?thesis .
qed

lemma narrow_minus_one: "(ucast (- 1 :: 64 word) :: 32 word) = - 1"
  by (rule bit_word_eqI) (simp add: bit_ucast_iff)

lemma narrow_fail_iff:
  fixes r :: "64 word"
  assumes "- (2 ^ 31) \<le> sint r" and "sint r < 2 ^ 31"
  shows "(ucast r :: 32 word) = - 1 \<longleftrightarrow> r = - 1"
proof
  assume "(ucast r :: 32 word) = - 1"
  then have "sint (ucast r :: 32 word) = - 1" by simp
  then have "sint r = sint (- 1 :: 64 word)" using narrow_sint [OF assms] by simp
  then show "r = - 1" by (rule signed_word_eqI)
next
  assume "r = - 1" then show "(ucast r :: 32 word) = - 1" by (simp add: narrow_minus_one)
qed

text \<open>Everything needed to run a function on a given operating system and world.\<close>

lemmas run_defs = sys_socket_open_socket_def sys_socket_open_tcp4_target_def
  sys_socket_open_tcp6_target_def sys_socket_open_udp4_target_def sys_socket_open_udp6_target_def
  sys_socket_reopen_tcp4_target_def sys_socket_reopen_tcp6_target_def
  sys_socket_reopen_udp4_target_def sys_socket_reopen_udp6_target_def
  sys_socket_sendto_target_def sys_socket_network_target_is_open_def
  sys_socket_close_network_target_def sys_socket_init_network_target_def
  call_defs example_defs Let_def

text \<open>The sample target as constructed, and after a successful open.\<close>

lemma constructed_eval:
  "handle (heap constructed 16) = - 1" "trace constructed = [EvInitMutex 16]"
  "destination (heap constructed 16) = ''127.0.0.1''" "port (heap constructed 16) = ''9999''"
  by (simp_all add: run_defs)

lemma opened_tcp4_eval:
  "handle (heap opened_tcp4 16) = 5"
  "destination (heap opened_tcp4 16) = ''127.0.0.1''" "port (heap opened_tcp4 16) = ''9999''"
  "trace opened_tcp4 =
     [EvInitMutex 16, EvLock 16, EvSocket AF_INET SOCK_STREAM 0 5,
      EvGetaddrinfo ''127.0.0.1'' ''9999'' (open_socket_hints AF_INET SOCK_STREAM 0) 0
        \<lparr> res_list = 100, res_addr = 200, res_addrlen = 16 \<rparr>,
      EvConnect 5 200 16 0, EvFreeaddrinfo 100, EvUnlock 16]"
  by (simp_all add: run_defs open_socket_hints_def)

lemma opened_udp6_eval:
  "handle (heap opened_udp6 16) = 5"
  "destination (heap opened_udp6 16) = ''127.0.0.1''" "port (heap opened_udp6 16) = ''9999''"
  "trace opened_udp6 =
     [EvInitMutex 16, EvLock 16, EvSocket AF_INET6 SOCK_DGRAM 0 5,
      EvGetaddrinfo ''127.0.0.1'' ''9999'' (open_socket_hints AF_INET6 SOCK_DGRAM 0) 0
        \<lparr> res_list = 100, res_addr = 200, res_addrlen = 16 \<rparr>,
      EvConnect 5 200 16 0, EvFreeaddrinfo 100, EvUnlock 16]"
  by (simp_all add: run_defs open_socket_hints_def)

subsection \<open>The primitive releases what it acquired\<close>

text \<open>
  Claim C1. Whatever the operating system answers, \<^verbatim>\<open>sys_socket_open_socket\<close> leaves
  by one of four exits. With \<open>h\<close> the result of \<^verbatim>\<open>socket\<close>, \<open>g\<close> and \<open>a\<close> the result of
  \<^verbatim>\<open>getaddrinfo\<close> and the list it stored, and \<open>c\<close> the result of \<^verbatim>\<open>connect\<close>:
  when no socket was created nothing is closed or freed; when the resolver failed the
  socket is closed and nothing is freed; when the connection failed the list is freed
  and the socket closed; when it succeeded the list is freed, nothing is closed and
  the socket is the result. On every exit the ledger of the calls the primitive made
  balances: every release is of something owned at that moment, and at the end nothing
  is owned but the descriptor that is returned.
\<close>

theorem open_socket_releases_what_it_acquired:
  assumes run: "sys_socket_open_socket sys tr dest prt domain type protocol = (ret, tr')"
    and h: "h = os_socket sys tr domain type protocol"
    and tr1: "tr1 = tr @ [EvSocket domain type protocol h]"
    and gai: "os_getaddrinfo sys tr1 dest prt (open_socket_hints domain type protocol) = (g, a)"
    and tr2: "tr2 = tr1 @ [EvGetaddrinfo dest prt (open_socket_hints domain type protocol) g a]"
    and c: "c = os_connect sys tr2 h (res_addr a) (res_addrlen a)"
    and evs: "evs = new_events tr tr'"
  shows "tr' = tr @ evs \<and>
    settle evs ([], []) = Some (if ret = - 1 then [] else [ret], []) \<and>
    (h = - 1 \<longrightarrow> ret = - 1 \<and> closed_fds evs = [] \<and> freed_lists evs = []) \<and>
    (h \<noteq> - 1 \<and> g \<noteq> 0 \<longrightarrow> ret = - 1 \<and> closed_fds evs = [h] \<and> freed_lists evs = []) \<and>
    (h \<noteq> - 1 \<and> g = 0 \<and> c = - 1 \<longrightarrow>
       ret = - 1 \<and> closed_fds evs = [h] \<and> freed_lists evs = [res_list a]) \<and>
    (h \<noteq> - 1 \<and> g = 0 \<and> c \<noteq> - 1 \<longrightarrow>
       ret = h \<and> closed_fds evs = [] \<and> freed_lists evs = [res_list a])"
proof (cases "h = - 1")
  case True
  with run h evs show ?thesis
    by (auto simp add: sys_socket_open_socket_def Let_def)
next
  case sock: False
  show ?thesis
  proof (cases "g = 0")
    case False
    with sock run h tr1 gai evs show ?thesis
      by (auto simp add: sys_socket_open_socket_def Let_def open_socket_hints_def)
  next
    case res: True
    show ?thesis
    proof (cases "c = - 1")
      case True
      with sock res run h tr1 gai tr2 c evs show ?thesis
        by (auto simp add: sys_socket_open_socket_def Let_def open_socket_hints_def)
    next
      case False
      with sock res run h tr1 gai tr2 c evs show ?thesis
        by (auto simp add: sys_socket_open_socket_def Let_def open_socket_hints_def)
    qed
  qed
qed

text \<open>
  The four exits, run from an empty trace: no descriptor left, an unknown name, a
  collector that refuses, a collector that listens.
\<close>

theorem open_socket_releases_witness:
  "closed_fds (new_events [] (snd (sys_socket_open_socket os_no_descriptor []
      ''127.0.0.1'' ''9999'' AF_INET SOCK_STREAM 0))) = [] \<and>
   freed_lists (new_events [] (snd (sys_socket_open_socket os_no_descriptor []
      ''127.0.0.1'' ''9999'' AF_INET SOCK_STREAM 0))) = [] \<and>
   closed_fds (new_events [] (snd (sys_socket_open_socket os_unresolvable []
      ''127.0.0.1'' ''9999'' AF_INET SOCK_STREAM 0))) = [3] \<and>
   freed_lists (new_events [] (snd (sys_socket_open_socket os_unresolvable []
      ''127.0.0.1'' ''9999'' AF_INET SOCK_STREAM 0))) = [] \<and>
   closed_fds (new_events [] (snd (sys_socket_open_socket os_refusing []
      ''127.0.0.1'' ''9999'' AF_INET SOCK_STREAM 0))) = [3] \<and>
   freed_lists (new_events [] (snd (sys_socket_open_socket os_refusing []
      ''127.0.0.1'' ''9999'' AF_INET SOCK_STREAM 0))) = [100] \<and>
   fst (sys_socket_open_socket os_reachable [] ''127.0.0.1'' ''9999'' AF_INET SOCK_STREAM 0) = 3 \<and>
   closed_fds (new_events [] (snd (sys_socket_open_socket os_reachable []
      ''127.0.0.1'' ''9999'' AF_INET SOCK_STREAM 0))) = [] \<and>
   freed_lists (new_events [] (snd (sys_socket_open_socket os_reachable []
      ''127.0.0.1'' ''9999'' AF_INET SOCK_STREAM 0))) = [100] \<and>
   settle (new_events [] (snd (sys_socket_open_socket os_reachable []
      ''127.0.0.1'' ''9999'' AF_INET SOCK_STREAM 0))) ([], []) = Some ([3], [])"
proof -
  note inst = open_socket_releases_what_it_acquired
    [OF surjective_pairing refl refl surjective_pairing refl refl refl]
  have s: "os_socket os_no_descriptor [] AF_INET SOCK_STREAM 0 = - 1"
    by (simp add: example_defs)
  have u: "os_socket os_unresolvable [] AF_INET SOCK_STREAM 0 = 3"
    "fst (os_getaddrinfo os_unresolvable [EvSocket AF_INET SOCK_STREAM 0 3]
       ''127.0.0.1'' ''9999'' (open_socket_hints AF_INET SOCK_STREAM 0)) = - 2"
    by (simp_all add: example_defs)
  have c: "os_socket os_refusing [] AF_INET SOCK_STREAM 0 = 3"
    "os_getaddrinfo os_refusing [EvSocket AF_INET SOCK_STREAM 0 3]
       ''127.0.0.1'' ''9999'' (open_socket_hints AF_INET SOCK_STREAM 0)
       = (0, \<lparr> res_list = 100, res_addr = 200, res_addrlen = 16 \<rparr>)"
    "os_connect os_refusing x y z t = - 1" for x y z t
    by (simp_all add: example_defs)
  have r: "os_socket os_reachable [] AF_INET SOCK_STREAM 0 = 3"
    "os_getaddrinfo os_reachable [EvSocket AF_INET SOCK_STREAM 0 3]
       ''127.0.0.1'' ''9999'' (open_socket_hints AF_INET SOCK_STREAM 0)
       = (0, \<lparr> res_list = 100, res_addr = 200, res_addrlen = 16 \<rparr>)"
    "os_connect os_reachable x y z t = 0" for x y z t
    by (simp_all add: example_defs)
  show ?thesis
    using inst [of os_no_descriptor "[]" "''127.0.0.1''" "''9999''" AF_INET SOCK_STREAM 0]
      inst [of os_unresolvable "[]" "''127.0.0.1''" "''9999''" AF_INET SOCK_STREAM 0]
      inst [of os_refusing "[]" "''127.0.0.1''" "''9999''" AF_INET SOCK_STREAM 0]
      inst [of os_reachable "[]" "''127.0.0.1''" "''9999''" AF_INET SOCK_STREAM 0]
    by (simp add: s u c r new_events_def)
qed

subsection \<open>Reopen connects with the pair of its own variant\<close>

text \<open>
  Claim C2, as stated: a reopen of an open target closes the descriptor and connects
  again with the (family, socket type) pair of the open that established the handle.
  The functions keep no record of that open. A target opened by
  \<^verbatim>\<open>sys_socket_open_udp6_target\<close> asked for \<open>(AF_INET6, SOCK_DGRAM)\<close>; reopened by
  \<^verbatim>\<open>sys_socket_reopen_tcp4_target\<close>, its descriptor is closed and the new socket is
  asked for with \<open>(AF_INET, SOCK_STREAM)\<close>.
\<close>

theorem reopen_with_other_variant_counterexample:
  "fst (sys_socket_open_udp6_target os_reachable 16 constructed) = Some 16 \<and>
   opened_udp6 = snd (sys_socket_open_udp6_target os_reachable 16 constructed) \<and>
   handle (heap opened_udp6 16) = 5 \<and>
   socket_calls (new_events (trace constructed) (trace opened_udp6)) = [(AF_INET6, SOCK_DGRAM)] \<and>
   fst (sys_socket_reopen_tcp4_target os_reachable 16 opened_udp6) = Some 16 \<and>
   closed_fds (new_events (trace opened_udp6)
     (trace (snd (sys_socket_reopen_tcp4_target os_reachable 16 opened_udp6)))) = [5] \<and>
   socket_calls (new_events (trace opened_udp6)
     (trace (snd (sys_socket_reopen_tcp4_target os_reachable 16 opened_udp6))))
     = [(AF_INET, SOCK_STREAM)] \<and>
   (AF_INET, SOCK_STREAM) \<noteq> (AF_INET6, SOCK_DGRAM)"
  by (simp add: run_defs new_events_def)

text \<open>
  Claim C2, amended. A reopen of an open target by the function of variant \<open>v\<close> first
  locks and closes the descriptor in the handle, then runs the primitive with the
  strings of the target and the pair of \<open>v\<close>, which is the pair the open function of
  the same variant \<open>v\<close> asks for (from any world \<open>w0\<close>); the result of the primitive is
  what the handle holds afterwards, descriptor or sentinel.
\<close>

theorem reopen_connects_with_pair_of_its_variant:
  assumes opened: "handle (heap w target) \<noteq> - 1"
    and r: "r = sys_socket_open_socket sys
                  (trace w @ [EvLock target, EvClose (handle (heap w target))])
                  (destination (heap w target)) (port (heap w target))
                  (variant_domain v) (variant_type v) 0"
    and run: "reopen_target v sys target w = (res, w')"
    and evs: "evs = new_events (trace w) (trace w')"
  shows "take 2 evs = [EvLock target, EvClose (handle (heap w target))] \<and>
    trace w' = snd r @ [EvUnlock target] \<and>
    socket_calls evs = [(variant_domain v, variant_type v)] \<and>
    socket_calls (new_events (trace w0) (trace (snd (open_target v sys target w0))))
      = [(variant_domain v, variant_type v)] \<and>
    handle (heap w' target) = fst r"
proof -
  let ?tr = "trace w @ [EvLock target, EvClose (handle (heap w target))]"
  let ?new = "new_events ?tr (snd r)"
  have ext: "snd r = ?tr @ ?new"
    unfolding r by (rule open_socket_extends)
  have w': "w' = w\<lparr> heap := (heap w)(target := (heap w target)\<lparr> handle := fst r \<rparr>),
                     trace := snd r @ [EvUnlock target] \<rparr>"
    using run opened r by (simp add: reopen_target_eq Let_def)
  have "trace w' = trace w @ [EvLock target, EvClose (handle (heap w target))] @ ?new
                     @ [EvUnlock target]"
    using w' ext by simp
  then have evs': "evs = [EvLock target, EvClose (handle (heap w target))] @ ?new
                     @ [EvUnlock target]"
    using evs by simp
  have calls: "socket_calls ?new = [(variant_domain v, variant_type v)]"
    unfolding r by (rule open_socket_asks_once)
  have app: "socket_calls (xs @ [EvUnlock target]) = socket_calls xs" for xs
    by (induction xs rule: socket_calls.induct) simp_all
  have "socket_calls evs = [(variant_domain v, variant_type v)]"
    using calls by (simp add: evs' app)
  moreover have "socket_calls (new_events (trace w0) (trace (snd (open_target v sys target w0))))
      = [(variant_domain v, variant_type v)]"
  proof -
    let ?r0 = "sys_socket_open_socket sys (trace w0 @ [EvLock target])
                (destination (heap w0 target)) (port (heap w0 target))
                (variant_domain v) (variant_type v) 0"
    let ?new0 = "new_events (trace w0 @ [EvLock target]) (snd ?r0)"
    have "snd ?r0 = (trace w0 @ [EvLock target]) @ ?new0"
      by (rule open_socket_extends)
    then have "trace (snd (open_target v sys target w0))
                 = trace w0 @ [EvLock target] @ ?new0 @ [EvUnlock target]"
      by (simp add: open_target_eq Let_def)
    then show ?thesis
      by (simp add: app open_socket_asks_once)
  qed
  ultimately show ?thesis
    using w' by (simp add: evs')
qed

theorem reopen_connects_witness:
  "handle (heap opened_tcp4 16) = 5 \<and>
   take 2 (new_events (trace opened_tcp4)
     (trace (snd (reopen_target TCP4 os_reachable 16 opened_tcp4)))) = [EvLock 16, EvClose 5] \<and>
   socket_calls (new_events (trace opened_tcp4)
     (trace (snd (reopen_target TCP4 os_reachable 16 opened_tcp4)))) = [(AF_INET, SOCK_STREAM)] \<and>
   socket_calls (new_events (trace constructed)
     (trace (snd (open_target TCP4 os_reachable 16 constructed)))) = [(AF_INET, SOCK_STREAM)]"
proof -
  have opened: "handle (heap opened_tcp4 16) \<noteq> - 1"
    by (simp add: opened_tcp4_eval)
  show ?thesis
    using reopen_connects_with_pair_of_its_variant
      [OF opened refl surjective_pairing refl, of TCP4 os_reachable constructed]
    by (simp add: run_defs new_events_def)
qed

subsection \<open>Open stores the result of the primitive and reports it\<close>

text \<open>
  Claim C3. Each of the four open functions stores the result of the primitive in the
  handle: the descriptor the primitive created, or the sentinel when one of its calls
  failed. It returns the target exactly when what it stored is not the sentinel, the
  null pointer exactly when it is.
\<close>

theorem open_stores_result_and_reports_it:
  assumes tr: "tr = trace w @ [EvLock target]"
    and dest: "dest = destination (heap w target)" and prt: "prt = port (heap w target)"
    and h: "h = os_socket sys tr (variant_domain v) (variant_type v) 0"
    and tr1: "tr1 = tr @ [EvSocket (variant_domain v) (variant_type v) 0 h]"
    and gai: "os_getaddrinfo sys tr1 dest prt
                (open_socket_hints (variant_domain v) (variant_type v) 0) = (g, a)"
    and tr2: "tr2 = tr1 @ [EvGetaddrinfo dest prt
                (open_socket_hints (variant_domain v) (variant_type v) 0) g a]"
    and c: "c = os_connect sys tr2 h (res_addr a) (res_addrlen a)"
    and r: "r = sys_socket_open_socket sys tr dest prt (variant_domain v) (variant_type v) 0"
    and run: "open_target v sys target w = (res, w')"
  shows "handle (heap w' target) = fst r \<and>
    fst r = (if h = - 1 \<or> g \<noteq> 0 \<or> c = - 1 then - 1 else h) \<and>
    trace w' = snd r @ [EvUnlock target] \<and>
    (res = Some target \<longleftrightarrow> handle (heap w' target) \<noteq> - 1) \<and>
    (res = None \<longleftrightarrow> handle (heap w' target) = - 1)"
proof -
  have stored: "fst r = (if h = - 1 \<or> g \<noteq> 0 \<or> c = - 1 then - 1 else h)"
    unfolding r by (rule open_socket_fails_iff [OF h tr1 gai tr2 c])
  have "handle (heap w' target) = fst r \<and> trace w' = snd r @ [EvUnlock target] \<and>
    (res = Some target \<longleftrightarrow> handle (heap w' target) \<noteq> - 1) \<and>
    (res = None \<longleftrightarrow> handle (heap w' target) = - 1)"
    using run r tr dest prt by (auto simp add: open_target_eq Let_def split: if_splits)
  with stored show ?thesis by simp
qed

theorem open_stores_result_witness:
  "fst (open_target TCP4 os_reachable 16 constructed) = Some 16 \<and>
   handle (heap (snd (open_target TCP4 os_reachable 16 constructed)) 16) = 5 \<and>
   fst (open_target UDP6 os_refusing 16 constructed) = None \<and>
   handle (heap (snd (open_target UDP6 os_refusing 16 constructed)) 16) = - 1"
  using open_stores_result_and_reports_it
      [OF refl refl refl refl refl surjective_pairing refl refl refl surjective_pairing,
        where v = TCP4 and sys = os_reachable and target = 16 and w = constructed]
    open_stores_result_and_reports_it
      [OF refl refl refl refl refl surjective_pairing refl refl refl surjective_pairing,
        where v = UDP6 and sys = os_refusing and target = 16 and w = constructed]
  by (simp add: run_defs)

subsection \<open>Send\<close>

text \<open>
  Claim C4. The transmission call answers \<open>-1\<close> when it fails and the number of bytes
  it sent otherwise. The function keeps that \<^verbatim>\<open>ssize_t\<close> answer in an \<^verbatim>\<open>int\<close>, so the
  statement is for the answers an \<^verbatim>\<open>int\<close> holds: \<open>-1\<close> and the counts up to
  \<open>2147483647\<close>, which include every count a single call of \<^verbatim>\<open>send\<close> transmits where the
  kernel bounds a transfer by \<open>0x7ffff000\<close> bytes. For such an answer send returns the
  number of bytes the call reports, and it returns \<open>-1\<close> exactly when the call failed;
  it reports to the error sink exactly then, once, a send failure with the value of
  \<^verbatim>\<open>errno\<close> and the tag for it. The one call is made on whatever the handle holds, the
  sentinel included, between the lock and the unlock, and no target is changed.
\<close>

theorem sendto_returns_count_or_reports_failure:
  assumes run: "sys_socket_sendto_target sys target msg msg_length w = (ret, w')"
    and sent: "sent = os_send sys (trace w @ [EvLock target]) (handle (heap w target))
                        msg msg_length 0"
    and answer: "sent = - 1 \<or> (0 \<le> sint sent \<and> sint sent \<le> 2147483647)"
    and evs: "evs = new_events (trace w) (trace w')"
    and crit: "crit = [EvLock target, EvSend (handle (heap w target)) msg msg_length 0 sent,
                       EvUnlock target]"
  shows "sint ret = sint sent \<and>
    (ret = - 1 \<longleftrightarrow> sent = - 1) \<and>
    take 3 evs = crit \<and>
    raised evs = (if sent = - 1 then
                    [EvRaise SOCKET_SEND_FAILURE L10N_SEND_SYS_SOCKET_FAILED_ERROR_MESSAGE
                       (os_errno sys (trace w @ crit)) L10N_ERRNO_ERROR_CODE_TYPE]
                  else []) \<and>
    heap w' = heap w"
proof -
  have lo: "- (2 ^ 31) \<le> sint sent" and hi: "sint sent < 2 ^ 31"
    using answer by auto
  have ret: "ret = ucast sent"
    using run sent by (simp add: sendto_eq Let_def)
  have same: "sint ret = sint sent"
    unfolding ret by (rule narrow_sint [OF lo hi])
  have fails: "ret = - 1 \<longleftrightarrow> sent = - 1"
    unfolding ret by (rule narrow_fail_iff [OF lo hi])
  have w': "w' = w\<lparr> trace := trace w @ crit @
                (if ret = - 1 then
                   [EvRaise SOCKET_SEND_FAILURE L10N_SEND_SYS_SOCKET_FAILED_ERROR_MESSAGE
                      (os_errno sys (trace w @ crit)) L10N_ERRNO_ERROR_CODE_TYPE]
                 else []) \<rparr>"
    using run sent crit by (auto simp add: sendto_eq Let_def)
  have evs': "evs = crit @
                (if sent = - 1 then
                   [EvRaise SOCKET_SEND_FAILURE L10N_SEND_SYS_SOCKET_FAILED_ERROR_MESSAGE
                      (os_errno sys (trace w @ crit)) L10N_ERRNO_ERROR_CODE_TYPE]
                 else [])"
    unfolding evs w' using fails by simp
  show ?thesis
    using same fails w' by (simp add: evs' crit)
qed

text \<open>
  A send of 11 bytes that is taken whole, one that fails on a broken pipe, and one on
  a target that was never opened: the sentinel is what the call is given.
\<close>

theorem sendto_returns_witness:
  "fst (sys_socket_sendto_target os_reachable 16 7 11 opened_tcp4) = 11 \<and>
   raised (new_events (trace opened_tcp4)
     (trace (snd (sys_socket_sendto_target os_reachable 16 7 11 opened_tcp4)))) = [] \<and>
   fst (sys_socket_sendto_target os_broken_pipe 16 7 11 opened_tcp4) = - 1 \<and>
   raised (new_events (trace opened_tcp4)
     (trace (snd (sys_socket_sendto_target os_broken_pipe 16 7 11 opened_tcp4))))
     = [EvRaise SOCKET_SEND_FAILURE L10N_SEND_SYS_SOCKET_FAILED_ERROR_MESSAGE 32
          L10N_ERRNO_ERROR_CODE_TYPE] \<and>
   take 3 (new_events (trace constructed)
     (trace (snd (sys_socket_sendto_target os_broken_pipe 16 7 11 constructed))))
     = [EvLock 16, EvSend (- 1) 7 11 0 (- 1), EvUnlock 16]"
proof -
  have whole: "os_send os_reachable tr fd 7 11 0 = - 1 \<or>
      (0 \<le> sint (os_send os_reachable tr fd 7 11 0) \<and>
       sint (os_send os_reachable tr fd 7 11 0) \<le> 2147483647)" for tr fd
    by (simp add: example_defs)
  have broken: "os_send os_broken_pipe tr fd 7 11 0 = - 1 \<or>
      (0 \<le> sint (os_send os_broken_pipe tr fd 7 11 0) \<and>
       sint (os_send os_broken_pipe tr fd 7 11 0) \<le> 2147483647)" for tr fd
    by (simp add: example_defs)
  show ?thesis
    using sendto_returns_count_or_reports_failure
        [OF surjective_pairing refl whole refl refl, where target = 16 and w = opened_tcp4]
      sendto_returns_count_or_reports_failure
        [OF surjective_pairing refl broken refl refl, where target = 16 and w = opened_tcp4]
      sendto_returns_count_or_reports_failure
        [OF surjective_pairing refl broken refl refl, where target = 16 and w = constructed]
    by (simp add: run_defs new_events_def)
qed

subsection \<open>Reopen returns the target whatever happens\<close>

text \<open>
  Claim C5. Each of the four reopen functions returns its argument. Of what the call
  hands back, only the handle tells whether the connection was made: after a reopen of
  an open target the store is the one before with the result of the primitive in the
  handle, so \<^verbatim>\<open>sys_socket_network_target_is_open\<close> answers 0 when the primitive
  failed and 1 when it did not. The open function of the same variant returns the null
  pointer when the primitive fails. (In both functions the primitive itself reports the
  failure to the error sink; claim C1 has its exits.)
\<close>

theorem reopen_returns_target_whatever_happens:
  assumes r: "r = sys_socket_open_socket sys
                    (trace w @ [EvLock target, EvClose (handle (heap w target))])
                    (destination (heap w target)) (port (heap w target))
                    (variant_domain v) (variant_type v) 0"
    and r0: "r0 = sys_socket_open_socket sys (trace w @ [EvLock target])
                    (destination (heap w target)) (port (heap w target))
                    (variant_domain v) (variant_type v) 0"
    and run: "reopen_target v sys target w = (res, w')"
  shows "res = Some target \<and>
    (handle (heap w target) \<noteq> - 1 \<longrightarrow>
       heap w' = (heap w)(target := (heap w target)\<lparr> handle := fst r \<rparr>)) \<and>
    (handle (heap w target) \<noteq> - 1 \<and> fst r = - 1 \<longrightarrow>
       sys_socket_network_target_is_open target w' = 0) \<and>
    (handle (heap w target) \<noteq> - 1 \<and> fst r \<noteq> - 1 \<longrightarrow>
       sys_socket_network_target_is_open target w' = 1) \<and>
    (fst r0 = - 1 \<longrightarrow> fst (open_target v sys target w) = None)"
  using run r r0
  by (auto simp add: reopen_target_eq open_target_eq sys_socket_network_target_is_open_def
      Let_def split: if_splits)

theorem reopen_returns_target_witness:
  "fst (reopen_target TCP4 os_refusing 16 opened_tcp4) = Some 16 \<and>
   sys_socket_network_target_is_open 16 opened_tcp4 = 1 \<and>
   sys_socket_network_target_is_open 16
     (snd (reopen_target TCP4 os_refusing 16 opened_tcp4)) = 0 \<and>
   fst (open_target TCP4 os_refusing 16 opened_tcp4) = None \<and>
   fst (reopen_target TCP4 os_reachable 16 opened_tcp4) = Some 16 \<and>
   sys_socket_network_target_is_open 16
     (snd (reopen_target TCP4 os_reachable 16 opened_tcp4)) = 1"
  using reopen_returns_target_whatever_happens
      [OF refl refl surjective_pairing, where v = TCP4 and sys = os_refusing and target = 16
        and w = opened_tcp4]
    reopen_returns_target_whatever_happens
      [OF refl refl surjective_pairing, where v = TCP4 and sys = os_reachable and target = 16
        and w = opened_tcp4]
  by (simp add: run_defs)

subsection \<open>Reopen of a target that is not open\<close>

text \<open>
  Claim C6. When the handle is the sentinel, a reopen locks and unlocks and does nothing
  else: no socket is asked for, nothing is connected, nothing is reported, no target
  changes and the handle is still the sentinel.
\<close>

theorem reopen_of_unopened_target_is_noop:
  assumes closed: "handle (heap w target) = - 1"
    and run: "reopen_target v sys target w = (res, w')"
    and evs: "evs = new_events (trace w) (trace w')"
  shows "res = Some target \<and> evs = [EvLock target, EvUnlock target] \<and>
    socket_calls evs = [] \<and> connect_calls evs = [] \<and> raised evs = [] \<and>
    heap w' = heap w \<and> handle (heap w' target) = - 1"
  using assms by (auto simp add: reopen_target_eq)

theorem reopen_of_unopened_witness:
  "handle (heap constructed 16) = - 1 \<and>
   fst (reopen_target UDP6 os_reachable 16 constructed) = Some 16 \<and>
   new_events (trace constructed) (trace (snd (reopen_target UDP6 os_reachable 16 constructed)))
     = [EvLock 16, EvUnlock 16] \<and>
   handle (heap (snd (reopen_target UDP6 os_reachable 16 constructed)) 16) = - 1"
proof -
  have closed: "handle (heap constructed 16) = - 1"
    by (simp add: run_defs)
  show ?thesis
    using reopen_of_unopened_target_is_noop
      [OF closed surjective_pairing refl, where v = UDP6 and sys = os_reachable]
    by (simp add: run_defs new_events_def)
qed

subsection \<open>Close\<close>

text \<open>
  Claim C7. \<^verbatim>\<open>sys_socket_close_network_target\<close> closes the descriptor in the handle
  exactly when the handle is not the sentinel, and destroys the mutex of the target
  once, in either case. On a target that was initialised and never opened it closes
  nothing.
\<close>

theorem close_closes_open_descriptor_and_destroys_lock:
  assumes run: "sys_socket_close_network_target target w = w'"
    and evs: "evs = new_events (trace w) (trace w')"
  shows "closed_fds evs = (if handle (heap w target) \<noteq> - 1 then [handle (heap w target)] else []) \<and>
    destroyed_mutexes evs = [target] \<and>
    evs = (if handle (heap w target) \<noteq> - 1 then [EvClose (handle (heap w target))] else [])
            @ [EvDestroyMutex target] \<and>
    heap w' = heap w \<and>
    closed_fds (new_events (trace (sys_socket_init_network_target target w))
       (trace (sys_socket_close_network_target target
          (sys_socket_init_network_target target w)))) = []"
  using assms
  by (auto simp add: sys_socket_close_network_target_def sys_socket_init_network_target_def
      call_defs Let_def new_events_def)

theorem close_witness:
  "closed_fds (new_events (trace opened_tcp4)
     (trace (sys_socket_close_network_target 16 opened_tcp4))) = [5] \<and>
   destroyed_mutexes (new_events (trace opened_tcp4)
     (trace (sys_socket_close_network_target 16 opened_tcp4))) = [16] \<and>
   closed_fds (new_events (trace constructed)
     (trace (sys_socket_close_network_target 16 constructed))) = [] \<and>
   destroyed_mutexes (new_events (trace constructed)
     (trace (sys_socket_close_network_target 16 constructed))) = [16]"
  using close_closes_open_descriptor_and_destroys_lock
      [OF refl refl, where target = 16 and w = opened_tcp4]
    close_closes_open_descriptor_and_destroys_lock
      [OF refl refl, where target = 16 and w = constructed]
  by (simp add: run_defs new_events_def)

subsection \<open>Only the handle changes\<close>

text \<open>
  Claim C8. After an open, a reopen or a send on a target, the destination and the port
  of every target are what they were, every other target is unchanged, and the target
  itself differs from before in its handle at most; a send changes no target at all.
  \<^verbatim>\<open>sys_socket_network_target_is_open\<close> takes a pointer to a constant target and
  returns a value: it has no world to change.
\<close>

theorem operations_change_handle_only:
  assumes ops: "w' \<in> {snd (open_target v sys target w), snd (reopen_target v sys target w),
                      snd (sys_socket_sendto_target sys target msg msg_length w)}"
  shows "destination (heap w' q) = destination (heap w q) \<and>
    port (heap w' q) = port (heap w q) \<and>
    (q \<noteq> target \<longrightarrow> heap w' q = heap w q) \<and>
    heap w' target = (heap w target)\<lparr> handle := handle (heap w' target) \<rparr> \<and>
    heap (snd (sys_socket_sendto_target sys target msg msg_length w)) = heap w"
  using ops
  by (auto simp add: reopen_target_eq open_target_eq sendto_eq Let_def)

theorem operations_change_handle_only_witness:
  "destination (heap (snd (open_target TCP4 os_reachable 16 constructed)) 16) = ''127.0.0.1'' \<and>
   port (heap (snd (open_target TCP4 os_reachable 16 constructed)) 16) = ''9999'' \<and>
   handle (heap constructed 16) = - 1 \<and>
   handle (heap (snd (open_target TCP4 os_reachable 16 constructed)) 16) = 5 \<and>
   destination (heap (snd (reopen_target TCP4 os_refusing 16 opened_tcp4)) 16) = ''127.0.0.1'' \<and>
   port (heap (snd (reopen_target TCP4 os_refusing 16 opened_tcp4)) 16) = ''9999'' \<and>
   heap (snd (sys_socket_sendto_target os_broken_pipe 16 7 11 opened_tcp4)) = heap opened_tcp4"
proof -
  have o: "snd (open_target TCP4 os_reachable 16 constructed)
      \<in> {snd (open_target TCP4 os_reachable 16 constructed),
         snd (reopen_target TCP4 os_reachable 16 constructed),
         snd (sys_socket_sendto_target os_reachable 16 7 11 constructed)}"
    by simp
  have r: "snd (reopen_target TCP4 os_refusing 16 opened_tcp4)
      \<in> {snd (open_target TCP4 os_refusing 16 opened_tcp4),
         snd (reopen_target TCP4 os_refusing 16 opened_tcp4),
         snd (sys_socket_sendto_target os_refusing 16 7 11 opened_tcp4)}"
    by simp
  have s: "snd (sys_socket_sendto_target os_broken_pipe 16 7 11 opened_tcp4)
      \<in> {snd (open_target TCP4 os_broken_pipe 16 opened_tcp4),
         snd (reopen_target TCP4 os_broken_pipe 16 opened_tcp4),
         snd (sys_socket_sendto_target os_broken_pipe 16 7 11 opened_tcp4)}"
    by simp
  show ?thesis
    using operations_change_handle_only [OF o, of 16]
      operations_change_handle_only [OF r, of 16]
      operations_change_handle_only [OF s, of 16]
    by (simp add: run_defs)
qed

subsection \<open>A failed open leaves the sentinel behind\<close>

text \<open>
  Claim C9. An open stores the result of the primitive whatever it is. The primitive
  returns \<open>-1\<close> exactly when one of its three calls failed, and the descriptor it
  created otherwise. So after an open whose primitive failed the function returns the
  null pointer and \<^verbatim>\<open>sys_socket_network_target_is_open\<close> answers 0, also when the
  handle held a descriptor before; and the only descriptor the call can have closed is
  \<open>h\<close>, the one its own \<^verbatim>\<open>socket\<close> call returned, not the one the handle held.
\<close>

theorem failed_open_overwrites_handle_with_sentinel:
  assumes h: "h = os_socket sys tr domain type 0"
    and tr: "tr = trace w @ [EvLock target]"
    and dom: "domain = variant_domain v" and ty: "type = variant_type v"
    and dest: "dest = destination (heap w target)" and prt: "prt = port (heap w target)"
    and tr1: "tr1 = tr @ [EvSocket domain type 0 h]"
    and gai: "os_getaddrinfo sys tr1 dest prt (open_socket_hints domain type 0) = (g, a)"
    and tr2: "tr2 = tr1 @ [EvGetaddrinfo dest prt (open_socket_hints domain type 0) g a]"
    and c: "c = os_connect sys tr2 h (res_addr a) (res_addrlen a)"
    and r: "r = sys_socket_open_socket sys tr dest prt domain type 0"
    and run: "open_target v sys target w = (res, w')"
  shows "handle (heap w' target) = fst r \<and>
    (fst r = - 1 \<longleftrightarrow> h = - 1 \<or> g \<noteq> 0 \<or> c = - 1) \<and>
    (fst r = - 1 \<longrightarrow>
       res = None \<and> sys_socket_network_target_is_open target w' = 0 \<and>
       set (closed_fds (new_events (trace w) (trace w'))) \<subseteq> {h})"
proof -
  have w': "w' = w\<lparr> heap := (heap w)(target := (heap w target)\<lparr> handle := fst r \<rparr>),
                     trace := snd r @ [EvUnlock target] \<rparr>"
    and res: "res = (if fst r = - 1 then None else Some target)"
    using run r tr dom ty dest prt by (auto simp add: open_target_eq Let_def)
  have fails: "fst r = (if h = - 1 \<or> g \<noteq> 0 \<or> c = - 1 then - 1 else h)"
    unfolding r by (rule open_socket_fails_iff [OF h tr1 gai tr2 c])
  let ?new = "new_events tr (snd r)"
  have ext: "snd r = tr @ ?new"
    unfolding r by (rule open_socket_extends)
  have app: "closed_fds (xs @ [EvUnlock target]) = closed_fds xs" for xs
    by (induction xs rule: closed_fds.induct) simp_all
  have "trace w' = trace w @ [EvLock target] @ ?new @ [EvUnlock target]"
    using w' ext tr by simp
  then have "closed_fds (new_events (trace w) (trace w')) = closed_fds ?new"
    by (simp add: app)
  moreover have "set (closed_fds ?new) \<subseteq> {h}"
    unfolding r h by (rule open_socket_closes_own)
  ultimately have closes: "set (closed_fds (new_events (trace w) (trace w'))) \<subseteq> {h}"
    by simp
  show ?thesis
    using w' res fails closes
    by (auto simp add: sys_socket_network_target_is_open_def split: if_splits)
qed

theorem failed_open_witness:
  "handle (heap opened_tcp4 16) = 5 \<and>
   fst (open_target TCP4 os_refusing 16 opened_tcp4) = None \<and>
   handle (heap (snd (open_target TCP4 os_refusing 16 opened_tcp4)) 16) = - 1 \<and>
   sys_socket_network_target_is_open 16 (snd (open_target TCP4 os_refusing 16 opened_tcp4)) = 0 \<and>
   closed_fds (new_events (trace opened_tcp4)
     (trace (snd (open_target TCP4 os_refusing 16 opened_tcp4)))) = [11]"
  using failed_open_overwrites_handle_with_sentinel
      [OF refl refl refl refl refl refl refl surjective_pairing refl refl refl surjective_pairing,
        where v = TCP4 and sys = os_refusing and target = 16 and w = opened_tcp4]
  by (simp add: run_defs new_events_def)

subsection \<open>Send reports after the unlock\<close>

text \<open>
  Claim C10. The calls of a send are the lock, the transmission and the unlock,
  followed by the report to the error sink when the function returns \<open>-1\<close>. No report
  is made while the lock of the target is held.
\<close>

theorem sendto_reports_after_unlock:
  assumes run: "sys_socket_sendto_target sys target msg msg_length w = (ret, w')"
    and sent: "sent = os_send sys (trace w @ [EvLock target]) (handle (heap w target))
                        msg msg_length 0"
    and evs: "evs = new_events (trace w) (trace w')"
    and crit: "crit = [EvLock target, EvSend (handle (heap w target)) msg msg_length 0 sent,
                       EvUnlock target]"
  shows "critical_raises target False evs = [] \<and>
    (ret = - 1 \<longrightarrow>
       evs = crit @ [EvRaise SOCKET_SEND_FAILURE L10N_SEND_SYS_SOCKET_FAILED_ERROR_MESSAGE
                       (os_errno sys (trace w @ crit)) L10N_ERRNO_ERROR_CODE_TYPE]) \<and>
    (ret \<noteq> - 1 \<longrightarrow> evs = crit)"
  using run sent evs crit by (auto simp add: sendto_eq Let_def)

theorem sendto_reports_after_unlock_witness:
  "new_events (trace opened_tcp4)
     (trace (snd (sys_socket_sendto_target os_broken_pipe 16 7 11 opened_tcp4)))
     = [EvLock 16, EvSend 5 7 11 0 (- 1), EvUnlock 16,
        EvRaise SOCKET_SEND_FAILURE L10N_SEND_SYS_SOCKET_FAILED_ERROR_MESSAGE 32
          L10N_ERRNO_ERROR_CODE_TYPE] \<and>
   critical_raises 16 False (new_events (trace opened_tcp4)
     (trace (snd (sys_socket_sendto_target os_broken_pipe 16 7 11 opened_tcp4)))) = []"
  using sendto_reports_after_unlock
      [OF surjective_pairing refl refl refl, where sys = os_broken_pipe and target = 16
        and msg = 7 and msg_length = 11 and w = opened_tcp4]
  by (simp add: run_defs new_events_def narrow_minus_one)

text \<open>
  By contrast, the reports of the primitive are made inside the critical section of an
  open: here the connect failure of an open that is refused.
\<close>

lemma open_reports_inside_critical_section:
  "critical_raises 16 False (new_events (trace constructed)
     (trace (snd (open_target TCP4 os_refusing 16 constructed))))
     = [EvRaise SOCKET_CONNECT_FAILURE L10N_CONNECT_SYS_SOCKET_FAILED_ERROR_MESSAGE 111
          L10N_ERRNO_ERROR_CODE_TYPE]"
  by (simp add: run_defs new_events_def)

end
